theory Spec2Isabelle
  imports Main
begin

section \<open>Failmail: startup wiring, coordinator loop and upstream pump\<close>

text \<open>
  A shallow embedding of \<^verbatim>\<open>failmail.go\<close> (the v0.1 file and the v0.2 file that follows
  it in the sources) and of the maildir sink exercised by the maildir tests.
  Go strings and byte slices are \<^typ>\<open>string\<close>; a Go \<^verbatim>\<open>error\<close> is represented by its
  message, and a result \<^verbatim>\<open>(T, error)\<close> by a pair whose second component is
  \<^term>\<open>None\<close> for \<^verbatim>\<open>nil\<close>.
\<close>

type_synonym error = string
type_synonym bytes = string

subsection \<open>Grouping functions chosen by configuration\<close>

text \<open>
  The four \<^verbatim>\<open>GroupBy\<close> constructors called by \<^verbatim>\<open>buildBatch\<close> and
  \<^verbatim>\<open>buildGroup\<close>, as tagged variants carrying their arguments.
\<close>

datatype GroupBy =
    MatchingSubject string
  | ReplacedSubject string string
  | Header string string
  | SameSubject

definition buildBatch :: "string \<Rightarrow> string \<Rightarrow> string \<Rightarrow> GroupBy" where
  "buildBatch batchMatch batchReplace batchHeader =
     (if batchMatch \<noteq> [] then MatchingSubject batchMatch
      else if batchReplace \<noteq> [] then ReplacedSubject batchReplace ''*''
      else Header batchHeader [])"

definition buildGroup :: "string \<Rightarrow> string \<Rightarrow> GroupBy" where
  "buildGroup groupMatch groupReplace =
     (if groupMatch \<noteq> [] then MatchingSubject groupMatch
      else if groupReplace \<noteq> [] then ReplacedSubject groupReplace ''*''
      else SameSubject)"

subsection \<open>Listener credentials\<close>

text \<open>
  \<^verbatim>\<open>strings.SplitN(s, sep, n)\<close> for a one-byte separator: at most \<open>n\<close> pieces, the
  last one being the unsplit remainder; \<open>n = 0\<close> gives no piece at all.
\<close>

fun SplitN :: "string \<Rightarrow> char \<Rightarrow> nat \<Rightarrow> string list" where
  "SplitN s sep 0 = []"
| "SplitN s sep (Suc 0) = [s]"
| "SplitN s sep (Suc (Suc n)) =
     (if sep \<in> set s
      then takeWhile (\<lambda>c. c \<noteq> sep) s # SplitN (tl (dropWhile (\<lambda>c. c \<noteq> sep) s)) sep (Suc n)
      else [s])"

datatype Auth = SingleUserPlainAuth (Username: string) (Password: string)

definition buildAuth :: "string \<Rightarrow> Auth option \<times> error option" where
  "buildAuth credentials =
     (if credentials = [] then (None, None)
      else
        let parts = SplitN credentials (CHR '':'') 2 in
        if length parts \<noteq> 2
        then (None, Some ''credentials must be in username:password format'')
        else (Some (SingleUserPlainAuth (parts ! 0) (parts ! 1)), None))"

subsection \<open>TLS configuration\<close>

text \<open>
  \<^verbatim>\<open>tls.LoadX509KeyPair\<close> reads the two PEM files; it is a parameter \<open>load\<close> of the
  model, returning either the error or the certificate.
\<close>

record 'cert tls_Config =
  Certificates :: "'cert list"

definition buildTLSConfig ::
  "(string \<Rightarrow> string \<Rightarrow> error + 'cert) \<Rightarrow> string \<Rightarrow> string
     \<Rightarrow> 'cert tls_Config option \<times> error option" where
  "buildTLSConfig load certFile keyFile =
     (if certFile = [] \<or> keyFile = [] then (None, None)
      else
        case load certFile keyFile of
          Inl err \<Rightarrow> (None, Some err)
        | Inr cert \<Rightarrow> (Some \<lparr>Certificates = [cert]\<rparr>, None))"

subsection \<open>Maildirs and the upstream chain\<close>

text \<open>
  A \<^verbatim>\<open>Maildir\<close> value as \<^verbatim>\<open>buildUpstream\<close> and \<^verbatim>\<open>main\<close> construct it
  (\<^verbatim>\<open>&Maildir{Path: dir}\<close>), together with the sequence counter that names its entries,
  which starts at zero.
\<close>

record Maildir =
  Path :: string
  written :: nat

datatype Upstream =
    DebugUpstream string
  | LiveUpstream string string string string
  | MaildirUpstream Maildir
  | ExecUpstream string
  | MultiUpstream Upstream Upstream

text \<open>
  Modelled from the spec: \<^verbatim>\<open>NewMultiUpstream\<close> and the \<^verbatim>\<open>Send\<close> methods of the
  upstream variants are not among the sources. The spec gives
  \<open>MultiUpstream(a, b)\<close>: sends to \<open>a\<close>, then \<open>b\<close>; if \<open>a\<close> fails, \<open>b\<close> is still
  attempted; returns the first error encountered. What a leaf sink does with a message
  (an SMTP session, a file write, a subprocess) is the parameter \<open>deliver\<close>; the model
  records every delivery attempt, in order, in a trace.
\<close>

definition NewMultiUpstream :: "Upstream \<Rightarrow> Upstream \<Rightarrow> Upstream" where
  "NewMultiUpstream a b = MultiUpstream a b"

type_synonym 'm deliveries = "(Upstream \<times> 'm) list"

fun Send ::
  "(Upstream \<Rightarrow> 'm \<Rightarrow> error option) \<Rightarrow> Upstream \<Rightarrow> 'm \<Rightarrow> 'm deliveries
     \<Rightarrow> error option \<times> 'm deliveries" where
  "Send deliver (MultiUpstream a b) m tr =
     (case Send deliver a m tr of
        (ea, tr1) \<Rightarrow>
          (case Send deliver b m tr1 of
             (eb, tr2) \<Rightarrow> ((case ea of Some e \<Rightarrow> Some e | None \<Rightarrow> eb), tr2)))"
| "Send deliver u m tr = (deliver u m, tr @ [(u, m)])"

text \<open>
  \<^verbatim>\<open>buildUpstream\<close>; \<open>create\<close> stands for \<^verbatim>\<open>Maildir.Create\<close> on the given path.
  As in the source, the upstream built so far is returned next to the error.
\<close>

definition withRelayCommand :: "string \<Rightarrow> Upstream \<Rightarrow> Upstream \<times> error option" where
  "withRelayCommand relayCommand upstream =
     (if relayCommand \<noteq> [] then (NewMultiUpstream (ExecUpstream relayCommand) upstream, None)
      else (upstream, None))"

definition buildUpstream ::
  "(string \<Rightarrow> error option) \<Rightarrow> string \<Rightarrow> string \<Rightarrow> string \<Rightarrow> string \<Rightarrow> string
     \<Rightarrow> Upstream \<times> error option" where
  "buildUpstream create relayAddr relayUser relayPassword allDir relayCommand =
     (let upstream =
            (if relayAddr = ''debug'' then DebugUpstream ''stdout''
             else LiveUpstream ''upstream'' relayAddr relayUser relayPassword)
      in
        if allDir \<noteq> [] then
          (let allMaildir = \<lparr>Path = allDir, written = 0\<rparr> in
           case create (Path allMaildir) of
             Some err \<Rightarrow> (upstream, Some err)
           | None \<Rightarrow>
               withRelayCommand relayCommand
                 (NewMultiUpstream (MaildirUpstream allMaildir) upstream))
        else withRelayCommand relayCommand upstream)"

subsection \<open>Channels\<close>

text \<open>
  A buffered Go channel as the coordinator and the pump see it: the values sent and not
  yet received, whether it has been closed, and its capacity (\<^verbatim>\<open>make(chan T, 64)\<close>).
  A send on a closed channel panics; a send on an open channel whose buffer is full makes
  the sender wait until the receiver has taken a value; a second close panics. The
  receiver takes the oldest value.
\<close>

record 'a chan =
  queue :: "'a list"
  closed :: bool
  capacity :: nat

definition make_chan :: "nat \<Rightarrow> 'a chan" where
  "make_chan n = \<lparr>queue = [], closed = False, capacity = n\<rparr>"

datatype 'a SendResult = Sent "'a chan" | WouldBlock | SendPanic string

definition chan_send :: "'a \<Rightarrow> 'a chan \<Rightarrow> 'a SendResult" where
  "chan_send x c =
     (if closed c then SendPanic ''send on closed channel''
      else if length (queue c) < capacity c then Sent (c\<lparr>queue := queue c @ [x]\<rparr>)
      else WouldBlock)"

definition chan_receive :: "'a chan \<Rightarrow> 'a chan" where
  "chan_receive c = (case queue c of [] \<Rightarrow> c | x # rest \<Rightarrow> c\<lparr>queue := rest\<rparr>)"

definition chan_close :: "'a chan \<Rightarrow> string + 'a chan" where
  "chan_close c =
     (if closed c then Inl ''close of closed channel''
      else Inr (c\<lparr>closed := True\<rparr>))"

text \<open>
  \<^verbatim>\<open>for _, x := range xs { c <- x }\<close>: all sent, or waiting in the send of the first of
  the values that are left, or a panic.
\<close>

datatype 'a SendEach = SentAll "'a chan" | Waiting "'a chan" "'a list" | EachPanic string "'a chan"

fun send_each :: "'a list \<Rightarrow> 'a chan \<Rightarrow> 'a SendEach" where
  "send_each [] c = SentAll c"
| "send_each (x # xs) c =
     (case chan_send x c of
        Sent c' \<Rightarrow> send_each xs c'
      | WouldBlock \<Rightarrow> Waiting c (x # xs)
      | SendPanic p \<Rightarrow> EachPanic p c)"

subsection \<open>The upstream pump\<close>

text \<open>
  \<^verbatim>\<open>sendUpstream\<close>. The calls it makes are parameters: \<open>send\<close> is
  \<^verbatim>\<open>upstream.Send\<close>, \<open>write\<close> is \<^verbatim>\<open>failedMaildir.Write\<close>, both acting on an
  outside world \<open>'w\<close>; \<open>bytes_of\<close> is the accessor for the message's bytes
  (\<^verbatim>\<open>msg.Parts().Bytes\<close> in v0.1, \<^verbatim>\<open>[]byte(msg.Contents())\<close> in v0.2). The model
  keeps a record of every call with its result and of every log line.
\<close>

datatype 'm PumpCall =
    CallSend 'm "error option"
  | CallWrite bytes "error option"
  | LogPrintf string

definition pump_message ::
  "('m \<Rightarrow> bytes) \<Rightarrow> ('m \<Rightarrow> 'w \<Rightarrow> error option \<times> 'w) \<Rightarrow> (bytes \<Rightarrow> 'w \<Rightarrow> error option \<times> 'w)
     \<Rightarrow> 'm \<Rightarrow> 'w \<times> 'm PumpCall list \<Rightarrow> 'w \<times> 'm PumpCall list" where
  "pump_message bytes_of send write msg st =
     (case st of (w, calls) \<Rightarrow>
        (case send msg w of
           (None, w1) \<Rightarrow> (w1, calls @ [CallSend msg None])
         | (Some sendErr, w1) \<Rightarrow>
             (let calls1 = calls @ [CallSend msg (Some sendErr),
                                    LogPrintf (''couldn't send message: '' @ sendErr)] in
              case write (bytes_of msg) w1 of
                (None, w2) \<Rightarrow> (w2, calls1 @ [CallWrite (bytes_of msg) None])
              | (Some saveErr, w2) \<Rightarrow>
                  (w2, calls1 @ [CallWrite (bytes_of msg) (Some saveErr),
                                 LogPrintf (''couldn't save message: '' @ saveErr)]))))"

fun range_sending ::
  "('m \<Rightarrow> bytes) \<Rightarrow> ('m \<Rightarrow> 'w \<Rightarrow> error option \<times> 'w) \<Rightarrow> (bytes \<Rightarrow> 'w \<Rightarrow> error option \<times> 'w)
     \<Rightarrow> 'm list \<Rightarrow> 'w \<times> 'm PumpCall list \<Rightarrow> 'w \<times> 'm PumpCall list" where
  "range_sending bytes_of send write [] st = st"
| "range_sending bytes_of send write (msg # rest) st =
     range_sending bytes_of send write rest (pump_message bytes_of send write msg st)"

text \<open>
  The pump run against what \<open>sending\<close> holds: it handles every queued message, then
  leaves the \<^verbatim>\<open>range\<close> loop if the channel is closed, and otherwise stays blocked in
  the receive.
\<close>

datatype 'st Pump = Exited 'st | Blocked 'st

fun pump_state :: "'st Pump \<Rightarrow> 'st" where
  "pump_state (Exited st) = st"
| "pump_state (Blocked st) = st"

fun pump_exited :: "'st Pump \<Rightarrow> bool" where
  "pump_exited (Exited st) = True"
| "pump_exited (Blocked st) = False"

definition sendUpstream ::
  "('m \<Rightarrow> bytes) \<Rightarrow> ('m \<Rightarrow> 'w \<Rightarrow> error option \<times> 'w) \<Rightarrow> (bytes \<Rightarrow> 'w \<Rightarrow> error option \<times> 'w)
     \<Rightarrow> 'm chan \<Rightarrow> 'w \<times> 'm PumpCall list \<Rightarrow> ('w \<times> 'm PumpCall list) Pump" where
  "sendUpstream bytes_of send write sending st =
     (case range_sending bytes_of send write (queue sending) st of
        (w, calls) \<Rightarrow>
          if closed sending then Exited (w, calls @ [LogPrintf ''done sending''])
          else Blocked (w, calls))"

text \<open>What the record of calls shows: the messages sent with their results, and the
  bytes written to the failure maildir.\<close>

fun sends_of :: "'m PumpCall list \<Rightarrow> ('m \<times> error option) list" where
  "sends_of [] = []"
| "sends_of (CallSend m e # cs) = (m, e) # sends_of cs"
| "sends_of (c # cs) = sends_of cs"

fun writes_of :: "'m PumpCall list \<Rightarrow> bytes list" where
  "writes_of [] = []"
| "writes_of (CallWrite b e # cs) = b # writes_of cs"
| "writes_of (c # cs) = writes_of cs"

fun failed_sends :: "('m \<times> error option) list \<Rightarrow> 'm list" where
  "failed_sends [] = []"
| "failed_sends ((m, Some e) # rest) = m # failed_sends rest"
| "failed_sends ((m, None) # rest) = failed_sends rest"

fun logs_of :: "'m PumpCall list \<Rightarrow> string list" where
  "logs_of [] = []"
| "logs_of (LogPrintf line # cs) = line # logs_of cs"
| "logs_of (c # cs) = logs_of cs"

text \<open>
  An outside world for the pump in which the answers of the two sinks are given by
  tables: the upstream keeps the messages it accepts and refuses the others with the
  error \<open>sendErr\<close> gives; the failure maildir keeps the contents it can save and fails
  on the others with the error \<open>saveErr\<close> gives.
\<close>

record 'm Sinks =
  delivered :: "'m list"
  spooled :: "bytes list"

definition table_Send ::
  "('m \<Rightarrow> error option) \<Rightarrow> 'm \<Rightarrow> 'm Sinks \<Rightarrow> error option \<times> 'm Sinks" where
  "table_Send sendErr msg w =
     (case sendErr msg of
        None \<Rightarrow> (None, w\<lparr>delivered := delivered w @ [msg]\<rparr>)
      | Some e \<Rightarrow> (Some e, w))"

definition table_Write ::
  "(bytes \<Rightarrow> error option) \<Rightarrow> bytes \<Rightarrow> 'm Sinks \<Rightarrow> error option \<times> 'm Sinks" where
  "table_Write saveErr bs w =
     (case saveErr bs of
        None \<Rightarrow> (None, w\<lparr>spooled := spooled w @ [bs]\<rparr>)
      | Some e \<Rightarrow> (Some e, w))"

text \<open>The log lines the tables call for, message by message.\<close>

definition failure_log ::
  "('m \<Rightarrow> bytes) \<Rightarrow> ('m \<Rightarrow> error option) \<Rightarrow> (bytes \<Rightarrow> error option) \<Rightarrow> 'm \<Rightarrow> string list" where
  "failure_log bytes_of sendErr saveErr msg =
     (case sendErr msg of
        None \<Rightarrow> []
      | Some e \<Rightarrow>
          (''couldn't send message: '' @ e) #
          (case saveErr (bytes_of msg) of
             None \<Rightarrow> []
           | Some e' \<Rightarrow> [''couldn't save message: '' @ e']))"

subsection \<open>The coordinator loop\<close>

text \<open>
  What the \<^verbatim>\<open>select\<close> of \<^verbatim>\<open>run\<close> receives in one iteration: a tick, a rate-check
  tick, a message from \<open>received\<close>, or a value from \<open>done\<close> (a \<^verbatim>\<open>bool\<close> in v0.1, a
  \<^verbatim>\<open>TerminationRequest\<close> in v0.2).
\<close>

datatype TerminationRequest = Shutdown | Reload

datatype ('m, 'd) Selected =
    Tick
  | RateCheckTick
  | Received 'm
  | Done 'd

text \<open>
  What travels on \<open>sending\<close>: a received message relayed as it is, or a summary
  (rendered, in v0.2). The state of the loop is what it owns or writes to;
  \<open>reloadRequested\<close> is the flag that \<^verbatim>\<open>reloader.RequestReload\<close> sets in v0.2 (the v0.1
  loop has no reloader and never touches it).
\<close>

datatype ('m, 's) OutgoingMessage = RawMessage 'm | SummaryMessage 's

record ('m, 's, 'b, 'r) RunState =
  buffer :: 'b
  rateCounter :: 'r
  sending :: "('m, 's) OutgoingMessage chan"
  logged :: "string list"
  reloadRequested :: bool

text \<open>\<^verbatim>\<open>fmt\<close>'s \<^verbatim>\<open>%d\<close>.\<close>

fun digits :: "nat \<Rightarrow> string" where
  "digits n =
     (if n < 10 then [''0123456789'' ! n]
      else digits (n div 10) @ [''0123456789'' ! (n mod 10)])"

declare digits.simps [simp del]

definition formatInt :: "int \<Rightarrow> string" where
  "formatInt i = (if i < 0 then CHR ''-'' # digits (nat (- i)) else digits (nat i))"

text \<open>
  One iteration of the \<^verbatim>\<open>for\<close> loop goes on to the next iteration, or panics, or
  waits in a send on the full \<open>sending\<close>: then what is left of the iteration is the
  values still to send and whether \<open>sending\<close> is closed after them.
  The methods of the buffer and of the rate counter are parameters: \<open>bufAdd\<close> is
  \<^verbatim>\<open>buffer.Add\<close>, \<open>bufFlush\<close> is \<^verbatim>\<open>buffer.Flush\<close>, \<open>rcAdd\<close> is
  \<^verbatim>\<open>rateCounter.Add\<close>, \<open>rcCheckAndAdvance\<close> is \<^verbatim>\<open>rateCounter.CheckAndAdvance\<close>,
  and in v0.2 \<open>render\<close> is \<^verbatim>\<open>renderer.Render\<close>. A panic keeps the state reached.
\<close>

datatype ('st, 'o) Iteration =
    Continue 'st
  | SendWaits 'st "'o list" bool
  | Panicked string 'st

text \<open>The sends of an iteration, and the \<^verbatim>\<open>close(sending)\<close> behind them in the
  \<open>done\<close> case.\<close>

definition send_then ::
  "('m, 'o) OutgoingMessage list \<Rightarrow> bool \<Rightarrow> ('m, 'o, 'b, 'r) RunState
     \<Rightarrow> (('m, 'o, 'b, 'r) RunState, ('m, 'o) OutgoingMessage) Iteration" where
  "send_then msgs closing st =
     (case send_each msgs (sending st) of
        EachPanic p c \<Rightarrow> Panicked p (st\<lparr>sending := c\<rparr>)
      | Waiting c rest \<Rightarrow> SendWaits (st\<lparr>sending := c\<rparr>) rest closing
      | SentAll c \<Rightarrow>
          if closing then
            (case chan_close c of
               Inl p \<Rightarrow> Panicked p (st\<lparr>sending := c\<rparr>)
             | Inr c' \<Rightarrow> Continue (st\<lparr>sending := c'\<rparr>))
          else Continue (st\<lparr>sending := c\<rparr>))"

definition run_tick ::
  "(bool \<Rightarrow> 'b \<Rightarrow> 's list \<times> 'b) \<Rightarrow> ('s \<Rightarrow> 'o) \<Rightarrow> ('m, 'o, 'b, 'r) RunState
     \<Rightarrow> (('m, 'o, 'b, 'r) RunState, ('m, 'o) OutgoingMessage) Iteration" where
  "run_tick bufFlush render st =
     (case bufFlush False (buffer st) of
        (summaries, b') \<Rightarrow>
          send_then (map (\<lambda>summary. SummaryMessage (render summary)) summaries) False
            (st\<lparr>buffer := b'\<rparr>))"

definition run_rateCheckTick ::
  "('r \<Rightarrow> (bool \<times> int) \<times> 'r) \<Rightarrow> ('m, 'o, 'b, 'r) RunState
     \<Rightarrow> (('m, 'o, 'b, 'r) RunState, ('m, 'o) OutgoingMessage) Iteration" where
  "run_rateCheckTick rcCheckAndAdvance st =
     (case rcCheckAndAdvance (rateCounter st) of
        ((exceeded, count), r') \<Rightarrow>
          if exceeded
          then Continue (st\<lparr>rateCounter := r',
                  logged := logged st @
                    [''rate limit check exceeded: '' @ formatInt count @ '' messages'']\<rparr>)
          else Continue (st\<lparr>rateCounter := r'\<rparr>))"

definition run_received ::
  "('m \<Rightarrow> 'b \<Rightarrow> 'b) \<Rightarrow> (int \<Rightarrow> 'r \<Rightarrow> 'r) \<Rightarrow> bool \<Rightarrow> 'm \<Rightarrow> ('m, 'o, 'b, 'r) RunState
     \<Rightarrow> (('m, 'o, 'b, 'r) RunState, ('m, 'o) OutgoingMessage) Iteration" where
  "run_received bufAdd rcAdd relayAll msg st =
     (let st1 = st\<lparr>buffer := bufAdd msg (buffer st)\<rparr>;
          st2 = st1\<lparr>rateCounter := rcAdd 1 (rateCounter st1)\<rparr>
      in
        if relayAll then send_then [RawMessage msg] False st2
        else Continue st2)"

text \<open>
  The \<open>done\<close> case after its first lines: log, final flush, close. Its last statement
  is \<^verbatim>\<open>break\<close>, which in Go ends the innermost \<^verbatim>\<open>for\<close>, \<^verbatim>\<open>switch\<close> or
  \<^verbatim>\<open>select\<close> statement: here the \<^verbatim>\<open>select\<close>. The enclosing \<^verbatim>\<open>for\<close> has no
  condition and the function has no \<^verbatim>\<open>return\<close>, so the iteration ends like the
  others.
\<close>

definition run_cleanup ::
  "(bool \<Rightarrow> 'b \<Rightarrow> 's list \<times> 'b) \<Rightarrow> ('s \<Rightarrow> 'o) \<Rightarrow> ('m, 'o, 'b, 'r) RunState
     \<Rightarrow> (('m, 'o, 'b, 'r) RunState, ('m, 'o) OutgoingMessage) Iteration" where
  "run_cleanup bufFlush render st =
     (let st1 = st\<lparr>logged := logged st @ [''cleaning up'']\<rparr> in
      case bufFlush True (buffer st1) of
        (summaries, b') \<Rightarrow>
          send_then (map (\<lambda>summary. SummaryMessage (render summary)) summaries) True
            (st1\<lparr>buffer := b'\<rparr>))"

text \<open>The loop body of v0.1: summaries are sent as they are.\<close>

fun run_select ::
  "('m \<Rightarrow> 'b \<Rightarrow> 'b) \<Rightarrow> (bool \<Rightarrow> 'b \<Rightarrow> 's list \<times> 'b) \<Rightarrow> (int \<Rightarrow> 'r \<Rightarrow> 'r)
     \<Rightarrow> ('r \<Rightarrow> (bool \<times> int) \<times> 'r) \<Rightarrow> bool \<Rightarrow> ('m, bool) Selected
     \<Rightarrow> ('m, 's, 'b, 'r) RunState
     \<Rightarrow> (('m, 's, 'b, 'r) RunState, ('m, 's) OutgoingMessage) Iteration" where
  "run_select bufAdd bufFlush rcAdd rcCheckAndAdvance relayAll Tick st =
     run_tick bufFlush (\<lambda>summary. summary) st"
| "run_select bufAdd bufFlush rcAdd rcCheckAndAdvance relayAll RateCheckTick st =
     run_rateCheckTick rcCheckAndAdvance st"
| "run_select bufAdd bufFlush rcAdd rcCheckAndAdvance relayAll (Received msg) st =
     run_received bufAdd rcAdd relayAll msg st"
| "run_select bufAdd bufFlush rcAdd rcCheckAndAdvance relayAll (Done d) st =
     run_cleanup bufFlush (\<lambda>summary. summary) st"

text \<open>The loop body of v0.2: summaries are rendered, and a reload request is passed on
  to the reloader before the cleanup.\<close>

fun run_select2 ::
  "('s \<Rightarrow> 'o) \<Rightarrow> ('m \<Rightarrow> 'b \<Rightarrow> 'b) \<Rightarrow> (bool \<Rightarrow> 'b \<Rightarrow> 's list \<times> 'b) \<Rightarrow> (int \<Rightarrow> 'r \<Rightarrow> 'r)
     \<Rightarrow> ('r \<Rightarrow> (bool \<times> int) \<times> 'r) \<Rightarrow> bool \<Rightarrow> ('m, TerminationRequest) Selected
     \<Rightarrow> ('m, 'o, 'b, 'r) RunState
     \<Rightarrow> (('m, 'o, 'b, 'r) RunState, ('m, 'o) OutgoingMessage) Iteration" where
  "run_select2 render bufAdd bufFlush rcAdd rcCheckAndAdvance relayAll Tick st =
     run_tick bufFlush render st"
| "run_select2 render bufAdd bufFlush rcAdd rcCheckAndAdvance relayAll RateCheckTick st =
     run_rateCheckTick rcCheckAndAdvance st"
| "run_select2 render bufAdd bufFlush rcAdd rcCheckAndAdvance relayAll (Received msg) st =
     run_received bufAdd rcAdd relayAll msg st"
| "run_select2 render bufAdd bufFlush rcAdd rcCheckAndAdvance relayAll (Done req) st =
     run_cleanup bufFlush render
       (if req = Reload then st\<lparr>reloadRequested := True\<rparr> else st)"

text \<open>
  The loop, run on the values its \<^verbatim>\<open>select\<close> receives one after the other. When they
  are used up the loop is where it waits for the next one. A send that finds \<open>sending\<close>
  full leaves the loop waiting in that send, with the rest of its iteration, for the pump;
  \<open>Returned\<close> is what a \<^verbatim>\<open>return\<close> would give.
\<close>

datatype ('st, 'o) Loop =
    Selecting 'st
  | Sending 'st "'o list" bool
  | Returned 'st
  | Crashed string 'st

fun run ::
  "('m \<Rightarrow> 'b \<Rightarrow> 'b) \<Rightarrow> (bool \<Rightarrow> 'b \<Rightarrow> 's list \<times> 'b) \<Rightarrow> (int \<Rightarrow> 'r \<Rightarrow> 'r)
     \<Rightarrow> ('r \<Rightarrow> (bool \<times> int) \<times> 'r) \<Rightarrow> bool \<Rightarrow> ('m, bool) Selected list
     \<Rightarrow> ('m, 's, 'b, 'r) RunState
     \<Rightarrow> (('m, 's, 'b, 'r) RunState, ('m, 's) OutgoingMessage) Loop" where
  "run bufAdd bufFlush rcAdd rcCheckAndAdvance relayAll [] st = Selecting st"
| "run bufAdd bufFlush rcAdd rcCheckAndAdvance relayAll (ev # evs) st =
     (case run_select bufAdd bufFlush rcAdd rcCheckAndAdvance relayAll ev st of
        Continue st' \<Rightarrow> run bufAdd bufFlush rcAdd rcCheckAndAdvance relayAll evs st'
      | SendWaits st' rest closing \<Rightarrow> Sending st' rest closing
      | Panicked p st' \<Rightarrow> Crashed p st')"

fun run2 ::
  "('s \<Rightarrow> 'o) \<Rightarrow> ('m \<Rightarrow> 'b \<Rightarrow> 'b) \<Rightarrow> (bool \<Rightarrow> 'b \<Rightarrow> 's list \<times> 'b) \<Rightarrow> (int \<Rightarrow> 'r \<Rightarrow> 'r)
     \<Rightarrow> ('r \<Rightarrow> (bool \<times> int) \<times> 'r) \<Rightarrow> bool \<Rightarrow> ('m, TerminationRequest) Selected list
     \<Rightarrow> ('m, 'o, 'b, 'r) RunState
     \<Rightarrow> (('m, 'o, 'b, 'r) RunState, ('m, 'o) OutgoingMessage) Loop" where
  "run2 render bufAdd bufFlush rcAdd rcCheckAndAdvance relayAll [] st = Selecting st"
| "run2 render bufAdd bufFlush rcAdd rcCheckAndAdvance relayAll (ev # evs) st =
     (case run_select2 render bufAdd bufFlush rcAdd rcCheckAndAdvance relayAll ev st of
        Continue st' \<Rightarrow> run2 render bufAdd bufFlush rcAdd rcCheckAndAdvance relayAll evs st'
      | SendWaits st' rest closing \<Rightarrow> Sending st' rest closing
      | Panicked p st' \<Rightarrow> Crashed p st')"

text \<open>
  The pump takes a value from \<open>sending\<close>: a loop waiting in a send goes on with the
  rest of its iteration.
\<close>

fun pump_receives ::
  "(('m, 'o, 'b, 'r) RunState, ('m, 'o) OutgoingMessage) Loop
     \<Rightarrow> (('m, 'o, 'b, 'r) RunState, ('m, 'o) OutgoingMessage) Loop" where
  "pump_receives (Selecting st) = Selecting (st\<lparr>sending := chan_receive (sending st)\<rparr>)"
| "pump_receives (Sending st rest closing) =
     (case send_then rest closing (st\<lparr>sending := chan_receive (sending st)\<rparr>) of
        Continue st' \<Rightarrow> Selecting st'
      | SendWaits st' rest' closing' \<Rightarrow> Sending st' rest' closing'
      | Panicked p st' \<Rightarrow> Crashed p st')"
| "pump_receives (Returned st) = Returned (st\<lparr>sending := chan_receive (sending st)\<rparr>)"
| "pump_receives (Crashed p st) = Crashed p st"

text \<open>The state in which \<^verbatim>\<open>main\<close> starts the loop: \<open>sending\<close> freshly made, with
  room for 64 messages.\<close>

definition start :: "'b \<Rightarrow> 'r \<Rightarrow> ('m, 's, 'b, 'r) RunState" where
  "start b r =
     \<lparr>buffer = b, rateCounter = r, sending = make_chan 64, logged = [],
      reloadRequested = False\<rparr>"

subsection \<open>The maildir sink\<close>

text \<open>
  Modelled from the spec: \<^verbatim>\<open>Maildir.NextUniqueName\<close> and \<^verbatim>\<open>Maildir.Write\<close> are not
  among the sources (only their tests are). The spec gives the naming environment
  \<open>{ Hostname() \<rightarrow> (string, err), Now() \<rightarrow> timestamp, Pid() \<rightarrow> int }\<close>, the filename
  \<open><unix-seconds>.<pid>_<n>.<hostname>:2,S\<close> with \<open>n\<close> a sequence counter incremented
  per create, and that messages are written directly to \<open>cur/\<close> with suffix \<open>:2,S\<close>.
  The tests add that the name without the suffix is what \<^verbatim>\<open>NextUniqueName\<close> returns,
  that a fresh maildir starts at 1, that \<^verbatim>\<open>Write\<close> returns the name it wrote, and that
  a failing hostname lookup makes \<^verbatim>\<open>Write\<close> fail with the lookup's error. The file
  system is a map from paths to contents.
\<close>

record NamingEnv =
  Hostname :: "string \<times> error option"
  Now :: int
  Pid :: int

type_synonym files = "string \<rightharpoonup> bytes"

definition NextUniqueName :: "NamingEnv \<Rightarrow> Maildir \<Rightarrow> (string \<times> error option) \<times> Maildir" where
  "NextUniqueName env m =
     (case Hostname env of
        (host, Some err) \<Rightarrow> (([], Some err), m)
      | (host, None) \<Rightarrow>
          (let m' = m\<lparr>written := written m + 1\<rparr> in
           ((formatInt (Now env) @ ''.'' @ formatInt (Pid env) @ ''_'' @
               formatInt (int (written m')) @ ''.'' @ host, None), m')))"

definition Write ::
  "NamingEnv \<Rightarrow> Maildir \<Rightarrow> bytes \<Rightarrow> files \<Rightarrow> (string \<times> error option) \<times> Maildir \<times> files" where
  "Write env m bs fs =
     (case NextUniqueName env m of
        ((name, Some err), m') \<Rightarrow> ((name, Some err), m', fs)
      | ((name, None), m') \<Rightarrow>
          (let name' = name @ '':2,S'' in
           ((name', None), m', fs(Path m @ ''/cur/'' @ name' \<mapsto> bs))))"

subsection \<open>Startup\<close>

text \<open>
  The parsed flags of v0.1, durations in nanoseconds, and what \<^verbatim>\<open>main\<close> asks of the
  operating system: loading the key pair, creating a maildir, reading the script.
\<close>

record Flags =
  bindAddr :: string
  relayAddr :: string
  waitPeriod :: int
  maxWait :: int
  from_addr :: string
  failDir :: string
  allDir :: string
  rateLimit :: int
  rateCheck :: int
  rateWindow :: int
  batchHeader :: string
  batchReplace :: string
  batchMatch :: string
  groupReplace :: string
  groupMatch :: string
  bindHTTP :: string
  relayAll :: bool
  relayUser :: string
  relayPassword :: string
  credentials :: string
  tlsCert :: string
  tlsKey :: string
  relayCommand :: string
  script :: string
  version :: bool

text \<open>The defaults declared with the flags; the default sender comes from
  \<^verbatim>\<open>DefaultFromAddress\<close>.\<close>

definition default_flags :: "string \<Rightarrow> Flags" where
  "default_flags sender =
     \<lparr>bindAddr = ''localhost:2525'', relayAddr = ''localhost:25'',
      waitPeriod = 30 * 1000000000, maxWait = 5 * 60 * 1000000000,
      from_addr = sender, failDir = ''failed'', allDir = [],
      rateLimit = 0, rateCheck = 60 * 1000000000, rateWindow = 5,
      batchHeader = ''X-Failmail-Split'', batchReplace = [], batchMatch = [],
      groupReplace = [], groupMatch = [], bindHTTP = ''localhost:8025'', relayAll = False,
      relayUser = [], relayPassword = [], credentials = [], tlsCert = [], tlsKey = [],
      relayCommand = [], script = [], version = False\<rparr>"

record 'cert System =
  LoadX509KeyPair :: "string \<Rightarrow> string \<Rightarrow> error + 'cert"
  MaildirCreate :: "string \<Rightarrow> error option"
  runScript :: "string \<Rightarrow> error option"

record 'cert Listener =
  Logger :: string
  Addr :: string
  Auth :: "Auth option"
  TLSConfig :: "'cert tls_Config option"

datatype MessageBuffer = NewMessageBuffer int int GroupBy GroupBy string

datatype RateCounter = NewRateCounter int int

text \<open>What is running once \<^verbatim>\<open>main\<close> has reached \<^verbatim>\<open>sendUpstream\<close>.\<close>

record 'cert Serving =
  srv_listener :: "'cert Listener"
  srv_buffer :: MessageBuffer
  srv_rateCounter :: RateCounter
  srv_upstream :: Upstream
  srv_failedMaildir :: Maildir
  srv_script :: "string option"
  srv_bindHTTP :: string
  srv_rateCheck :: int
  srv_relayAll :: bool

datatype 'cert Startup =
    VersionShown
  | Fatal string
  | Serves "'cert Serving"

text \<open>
  \<^verbatim>\<open>main\<close> of v0.1 up to the point where everything is started. \<^verbatim>\<open>log.Fatalf\<close>
  ends the process with its message. The error returned by \<^verbatim>\<open>buildTLSConfig\<close> is
  assigned to \<^verbatim>\<open>err\<close> and the next statement that looks at \<^verbatim>\<open>err\<close> comes after
  \<^verbatim>\<open>buildUpstream\<close> has assigned it again.
\<close>

definition main_script :: "'cert System \<Rightarrow> Flags \<Rightarrow> 'cert Serving \<Rightarrow> 'cert Startup" where
  "main_script sys f srv =
     (if script f \<noteq> [] then
        (case runScript sys (script f) of
           Some err \<Rightarrow> Fatal (''failed to run script file '' @ script f @ '': '' @ err)
         | None \<Rightarrow> Serves (srv\<lparr>srv_script := Some (script f)\<rparr>))
      else Serves srv)"

definition main :: "'cert System \<Rightarrow> Flags \<Rightarrow> 'cert Startup" where
  "main sys f =
     (if version f then VersionShown
      else
        case buildAuth (credentials f) of
          (auth, Some err) \<Rightarrow> Fatal (''failed to parse auth credentials: '' @ err)
        | (auth, None) \<Rightarrow>
            (case buildTLSConfig (LoadX509KeyPair sys) (tlsCert f) (tlsKey f) of
               (tlsConfig, err) \<Rightarrow>
                 (let listener = \<lparr>Logger = ''listener'', Addr = bindAddr f, Auth = auth,
                                  TLSConfig = tlsConfig\<rparr>;
                      batch = buildBatch (batchMatch f) (batchReplace f) (batchHeader f);
                      group = buildGroup (groupMatch f) (groupReplace f);
                      buffer = NewMessageBuffer (waitPeriod f) (maxWait f) batch group (from_addr f);
                      rateCounter = NewRateCounter (rateLimit f) (rateWindow f)
                  in
                    case buildUpstream (MaildirCreate sys) (relayAddr f) (relayUser f)
                           (relayPassword f) (allDir f) (relayCommand f) of
                      (upstream, Some err) \<Rightarrow> Fatal (''failed to create upstream: '' @ err)
                    | (upstream, None) \<Rightarrow>
                        (let failedMaildir = \<lparr>Path = failDir f, written = 0\<rparr> in
                         case MaildirCreate sys (Path failedMaildir) of
                           Some err \<Rightarrow>
                             Fatal (''failed to create maildir for failed messages at '' @
                                    failDir f @ '': '' @ err)
                         | None \<Rightarrow>
                             main_script sys f
                               \<lparr>srv_listener = listener, srv_buffer = buffer,
                                srv_rateCounter = rateCounter, srv_upstream = upstream,
                                srv_failedMaildir = failedMaildir, srv_script = None,
                                srv_bindHTTP = bindHTTP f, srv_rateCheck = rateCheck f,
                                srv_relayAll = relayAll f\<rparr>))))"

subsection \<open>Concrete surroundings\<close>

text \<open>
  Surroundings at which the model is evaluated: a file system where every maildir can be
  created and no key pair can be read, sinks that accept every message, a buffer that
  keeps its messages in a list and gives them all up on a forced flush, a rate counter
  that only counts, a relay that accepts only the message \<open>good\<close>, a failure maildir
  that cannot save \<open>worse\<close>, messages that are their own contents, and the naming
  environment pinned by the maildir tests.
\<close>

definition create_ok :: "string \<Rightarrow> error option" where
  "create_ok path = None"

definition deliver_ok :: "Upstream \<Rightarrow> string \<Rightarrow> error option" where
  "deliver_ok u m = None"

definition load_unreadable :: "string \<Rightarrow> string \<Rightarrow> error + unit" where
  "load_unreadable certFile keyFile = Inl (''open '' @ certFile @ '': no such file or directory'')"

definition script_ok :: "string \<Rightarrow> error option" where
  "script_ok file = None"

definition unreadable_pem :: "unit System" where
  "unreadable_pem =
     \<lparr>LoadX509KeyPair = load_unreadable, MaildirCreate = create_ok, runScript = script_ok\<rparr>"

definition keep_all :: "string \<Rightarrow> string list \<Rightarrow> string list" where
  "keep_all m b = b @ [m]"

definition flush_all :: "bool \<Rightarrow> string list \<Rightarrow> string list \<times> string list" where
  "flush_all force b = (if force then (b, []) else ([], b))"

definition count_up :: "int \<Rightarrow> int \<Rightarrow> int" where
  "count_up n r = r + n"

definition check_none :: "int \<Rightarrow> (bool \<times> int) \<times> int" where
  "check_none r = ((False, r), 0)"

definition relay_down :: "string \<Rightarrow> error option" where
  "relay_down msg = (if msg = ''good'' then None else Some ''relay down'')"

definition disk_full :: "bytes \<Rightarrow> error option" where
  "disk_full bs = (if bs = ''worse'' then Some ''disk full'' else None)"

definition contents :: "string \<Rightarrow> bytes" where
  "contents msg = msg"

definition test_env :: NamingEnv where
  "test_env = \<lparr>Hostname = (''test'', None), Now = 1393650000, Pid = 1000\<rparr>"

definition no_hostname :: NamingEnv where
  "no_hostname = \<lparr>Hostname = ([], Some ''couldn't get hostname''), Now = 1393650000, Pid = 1000\<rparr>"

section \<open>Properties\<close>

subsection \<open>The coordinator loop after a request on \<open>done\<close>\<close>

lemma send_each_open:
  "\<not> closed c \<Longrightarrow> length (queue c) \<le> capacity c \<Longrightarrow>
   send_each xs c =
     (if length xs \<le> capacity c - length (queue c) then SentAll (c\<lparr>queue := queue c @ xs\<rparr>)
      else Waiting (c\<lparr>queue := queue c @ take (capacity c - length (queue c)) xs\<rparr>)
             (drop (capacity c - length (queue c)) xs))"
proof (induction xs arbitrary: c)
  case Nil
  then show ?case by simp
next
  case (Cons x xs)
  show ?case
  proof (cases "length (queue c) < capacity c")
    case True
    then obtain k where k: "capacity c - length (queue c) = Suc k"
      by (cases "capacity c - length (queue c)") auto
    let ?c = "c\<lparr>queue := queue c @ [x]\<rparr>"
    have room: "capacity ?c - length (queue ?c) = k"
      using k by simp
    have "send_each (x # xs) c = send_each xs ?c"
      using True Cons.prems(1) by (simp add: chan_send_def)
    also have "\<dots> = (if length xs \<le> k then SentAll (?c\<lparr>queue := queue ?c @ xs\<rparr>)
                      else Waiting (?c\<lparr>queue := queue ?c @ take k xs\<rparr>) (drop k xs))"
      using Cons.IH [of ?c] Cons.prems(1) True room by simp
    finally show ?thesis
      using k by simp
  next
    case False
    then have full: "capacity c - length (queue c) = 0"
      using Cons.prems(2) by simp
    have "send_each (x # xs) c = Waiting c (x # xs)"
      using False Cons.prems(1) by (simp add: chan_send_def)
    then show ?thesis
      using full by simp
  qed
qed

lemma send_each_closed:
  "closed c \<Longrightarrow> send_each (x # xs) c = EachPanic ''send on closed channel'' c"
  by (simp add: chan_send_def)

lemma send_each_start:
  "send_each xs (make_chan 64) =
     (if length xs \<le> 64 then SentAll \<lparr>queue = xs, closed = False, capacity = 64\<rparr>
      else Waiting \<lparr>queue = take 64 xs, closed = False, capacity = 64\<rparr> (drop 64 xs))"
  using send_each_open [of "make_chan 64" xs] by (simp add: make_chan_def)

lemma run_cleanup_start:
  "run_cleanup bufFlush render ((start b r)\<lparr>reloadRequested := q\<rparr>) =
     (if length (fst (bufFlush True b)) \<le> 64 then
        Continue
          \<lparr>buffer = snd (bufFlush True b), rateCounter = r,
           sending = \<lparr>queue = map (\<lambda>summary. SummaryMessage (render summary))
                                 (fst (bufFlush True b)),
                      closed = True, capacity = 64\<rparr>,
           logged = [''cleaning up''], reloadRequested = q\<rparr>
      else
        SendWaits
          \<lparr>buffer = snd (bufFlush True b), rateCounter = r,
           sending = \<lparr>queue = take 64 (map (\<lambda>summary. SummaryMessage (render summary))
                                          (fst (bufFlush True b))),
                      closed = False, capacity = 64\<rparr>,
           logged = [''cleaning up''], reloadRequested = q\<rparr>
          (drop 64 (map (\<lambda>summary. SummaryMessage (render summary)) (fst (bufFlush True b))))
          True)"
  by (simp add: run_cleanup_def send_then_def start_def send_each_start chan_close_def Let_def
        split: prod.splits)

lemma start_reloadRequested: "(start b r)\<lparr>reloadRequested := False\<rparr> = start b r"
  by (simp add: start_def)

lemma run_received_cases:
  "run_received bufAdd rcAdd ra m st =
     (if ra then
        (if closed (sending st) then
           Panicked ''send on closed channel''
             (st\<lparr>buffer := bufAdd m (buffer st), rateCounter := rcAdd 1 (rateCounter st)\<rparr>)
         else if length (queue (sending st)) < capacity (sending st) then
           Continue
             (st\<lparr>buffer := bufAdd m (buffer st), rateCounter := rcAdd 1 (rateCounter st),
                 sending := (sending st)\<lparr>queue := queue (sending st) @ [RawMessage m]\<rparr>\<rparr>)
         else
           SendWaits
             (st\<lparr>buffer := bufAdd m (buffer st), rateCounter := rcAdd 1 (rateCounter st)\<rparr>)
             [RawMessage m] False)
      else
        Continue (st\<lparr>buffer := bufAdd m (buffer st), rateCounter := rcAdd 1 (rateCounter st)\<rparr>))"
  by (simp add: run_received_def send_then_def chan_send_def Let_def)

lemma waiting_send_goes_on:
  "\<not> closed (sending st) \<Longrightarrow> queue (sending st) = y # ys \<Longrightarrow>
   length ys < capacity (sending st) \<Longrightarrow>
   pump_receives (Sending st [x] False) =
     Selecting (st\<lparr>sending := (sending st)\<lparr>queue := ys @ [x]\<rparr>\<rparr>)"
  by (simp add: send_then_def chan_receive_def chan_send_def)

text \<open>
  C1 says that on a request on \<open>done\<close> the loop flushes with \<open>Flush(true)\<close>, sends the
  summaries, closes \<open>sending\<close> and returns, with no further iteration. The code does the
  first three and then goes on: started by \<^verbatim>\<open>main\<close>, after a request on \<open>done\<close> the
  loop of either version is back at its \<^verbatim>\<open>select\<close> with \<open>sending\<close> closed, and with
  \<open>relayAll\<close> a message received next is added to the buffer and the rate counter and
  then sent on the closed channel, which panics. (With more than 64 summaries to flush,
  the loop waits for the pump in the send of the 65th, \<open>sending\<close> not yet closed.)
\<close>

theorem run_goes_on_after_done:
  "run bufAdd bufFlush rcAdd rcCheckAndAdvance ra [Done d] (start b r) =
     (if length (fst (bufFlush True b)) \<le> 64 then
        Selecting
          \<lparr>buffer = snd (bufFlush True b), rateCounter = r,
           sending = \<lparr>queue = map SummaryMessage (fst (bufFlush True b)), closed = True,
                      capacity = 64\<rparr>,
           logged = [''cleaning up''], reloadRequested = False\<rparr>
      else
        Sending
          \<lparr>buffer = snd (bufFlush True b), rateCounter = r,
           sending = \<lparr>queue = take 64 (map SummaryMessage (fst (bufFlush True b))),
                      closed = False, capacity = 64\<rparr>,
           logged = [''cleaning up''], reloadRequested = False\<rparr>
          (drop 64 (map SummaryMessage (fst (bufFlush True b)))) True) \<and>
   run bufAdd bufFlush rcAdd rcCheckAndAdvance True [Done d, Received m] (start b r) =
     (if length (fst (bufFlush True b)) \<le> 64 then
        Crashed ''send on closed channel''
          \<lparr>buffer = bufAdd m (snd (bufFlush True b)), rateCounter = rcAdd 1 r,
           sending = \<lparr>queue = map SummaryMessage (fst (bufFlush True b)), closed = True,
                      capacity = 64\<rparr>,
           logged = [''cleaning up''], reloadRequested = False\<rparr>
      else
        Sending
          \<lparr>buffer = snd (bufFlush True b), rateCounter = r,
           sending = \<lparr>queue = take 64 (map SummaryMessage (fst (bufFlush True b))),
                      closed = False, capacity = 64\<rparr>,
           logged = [''cleaning up''], reloadRequested = False\<rparr>
          (drop 64 (map SummaryMessage (fst (bufFlush True b)))) True) \<and>
   run2 render bufAdd bufFlush rcAdd rcCheckAndAdvance ra [Done req] (start b r) =
     (if length (fst (bufFlush True b)) \<le> 64 then
        Selecting
          \<lparr>buffer = snd (bufFlush True b), rateCounter = r,
           sending = \<lparr>queue = map (\<lambda>summary. SummaryMessage (render summary))
                                 (fst (bufFlush True b)),
                      closed = True, capacity = 64\<rparr>,
           logged = [''cleaning up''], reloadRequested = (req = Reload)\<rparr>
      else
        Sending
          \<lparr>buffer = snd (bufFlush True b), rateCounter = r,
           sending = \<lparr>queue = take 64 (map (\<lambda>summary. SummaryMessage (render summary))
                                          (fst (bufFlush True b))),
                      closed = False, capacity = 64\<rparr>,
           logged = [''cleaning up''], reloadRequested = (req = Reload)\<rparr>
          (drop 64 (map (\<lambda>summary. SummaryMessage (render summary)) (fst (bufFlush True b))))
          True) \<and>
   run2 render bufAdd bufFlush rcAdd rcCheckAndAdvance True [Done req, Received m] (start b r) =
     (if length (fst (bufFlush True b)) \<le> 64 then
        Crashed ''send on closed channel''
          \<lparr>buffer = bufAdd m (snd (bufFlush True b)), rateCounter = rcAdd 1 r,
           sending = \<lparr>queue = map (\<lambda>summary. SummaryMessage (render summary))
                                 (fst (bufFlush True b)),
                      closed = True, capacity = 64\<rparr>,
           logged = [''cleaning up''], reloadRequested = (req = Reload)\<rparr>
      else
        Sending
          \<lparr>buffer = snd (bufFlush True b), rateCounter = r,
           sending = \<lparr>queue = take 64 (map (\<lambda>summary. SummaryMessage (render summary))
                                          (fst (bufFlush True b))),
                      closed = False, capacity = 64\<rparr>,
           logged = [''cleaning up''], reloadRequested = (req = Reload)\<rparr>
          (drop 64 (map (\<lambda>summary. SummaryMessage (render summary)) (fst (bufFlush True b))))
          True)"
proof -
  have v1: "run_cleanup bufFlush (\<lambda>summary. summary) (start b r) =
     (if length (fst (bufFlush True b)) \<le> 64 then
        Continue
          \<lparr>buffer = snd (bufFlush True b), rateCounter = r,
           sending = \<lparr>queue = map SummaryMessage (fst (bufFlush True b)), closed = True,
                      capacity = 64\<rparr>,
           logged = [''cleaning up''], reloadRequested = False\<rparr>
      else
        SendWaits
          \<lparr>buffer = snd (bufFlush True b), rateCounter = r,
           sending = \<lparr>queue = take 64 (map SummaryMessage (fst (bufFlush True b))),
                      closed = False, capacity = 64\<rparr>,
           logged = [''cleaning up''], reloadRequested = False\<rparr>
          (drop 64 (map SummaryMessage (fst (bufFlush True b)))) True)"
    using run_cleanup_start [where bufFlush = bufFlush and render = "\<lambda>summary. summary" and b = b and r = r and q = False]
    by (simp add: start_reloadRequested)
  have v2: "run_cleanup bufFlush render
              (if req = Reload then (start b r)\<lparr>reloadRequested := True\<rparr> else start b r) =
            run_cleanup bufFlush render ((start b r)\<lparr>reloadRequested := (req = Reload)\<rparr>)"
    by (simp add: start_reloadRequested)
  show ?thesis
    by (simp add: v1 v2 run_cleanup_start run_received_cases)
qed

subsection \<open>The order of the upstream chain\<close>

lemma buildUpstream_both:
  assumes "ad \<noteq> []" and "rc \<noteq> []" and "buildUpstream create ra ru rp ad rc = (up, None)"
  shows "up = MultiUpstream (ExecUpstream rc)
           (MultiUpstream (MaildirUpstream \<lparr>Path = ad, written = 0\<rparr>)
              (if ra = ''debug'' then DebugUpstream ''stdout''
               else LiveUpstream ''upstream'' ra ru rp))"
  using assms
  by (auto simp: buildUpstream_def withRelayCommand_def NewMultiUpstream_def Let_def
        split: option.splits if_splits)

lemma buildUpstream_example:
  "buildUpstream create_ok ''localhost:25'' [] [] ''all'' ''cat'' =
     (MultiUpstream (ExecUpstream ''cat'')
        (MultiUpstream (MaildirUpstream \<lparr>Path = ''all'', written = 0\<rparr>)
           (LiveUpstream ''upstream'' ''localhost:25'' [] [])), None)"
  by (simp add: buildUpstream_def withRelayCommand_def NewMultiUpstream_def Let_def create_ok_def)

text \<open>
  C2, as amended: when \<open>allDir\<close> and \<open>relayCommand\<close> are both non-empty and
  \<^verbatim>\<open>buildUpstream\<close> returns no error, the upstream it returns is the chain whose
  \<open>Send\<close> delivers the message first to the external command, then to the all-mail
  maildir archive, and last to the primary relay (command, archive, relay), whatever the
  sinks answer.
\<close>

theorem buildUpstream_chain_order:
  assumes "ad \<noteq> []" and "rc \<noteq> []"
    and "buildUpstream create ra ru rp ad rc = (up, None)"
  shows "up = MultiUpstream (ExecUpstream rc)
           (MultiUpstream (MaildirUpstream \<lparr>Path = ad, written = 0\<rparr>)
              (if ra = ''debug'' then DebugUpstream ''stdout''
               else LiveUpstream ''upstream'' ra ru rp)) \<and>
         snd (Send deliver up m tr) =
           tr @ [(ExecUpstream rc, m),
                 (MaildirUpstream \<lparr>Path = ad, written = 0\<rparr>, m),
                 (if ra = ''debug'' then DebugUpstream ''stdout''
                  else LiveUpstream ''upstream'' ra ru rp, m)]"
proof -
  note up = buildUpstream_both [OF assms]
  show ?thesis
    unfolding up by (simp split: prod.splits)
qed

theorem buildUpstream_chain_order_witness:
  "''all'' \<noteq> [] \<and> ''cat'' \<noteq> [] \<and>
   snd (buildUpstream create_ok ''localhost:25'' [] [] ''all'' ''cat'') = None \<and>
   snd (Send deliver_ok (fst (buildUpstream create_ok ''localhost:25'' [] [] ''all'' ''cat''))
          ''mail'' []) =
     [(ExecUpstream ''cat'', ''mail''),
      (MaildirUpstream \<lparr>Path = ''all'', written = 0\<rparr>, ''mail''),
      (LiveUpstream ''upstream'' ''localhost:25'' [] [], ''mail'')]"
  using buildUpstream_chain_order [OF _ _ buildUpstream_example, of deliver_ok "''mail''" "[]"]
  by (simp add: buildUpstream_example)

text \<open>
  C2 as stated (archive, command, relay) fails: with the archive \<open>all\<close> and the command
  \<open>cat\<close> in front of a live relay, the command is served before the archive.
\<close>

theorem buildUpstream_archive_first_counterexample:
  "snd (Send deliver_ok (fst (buildUpstream create_ok ''localhost:25'' [] [] ''all'' ''cat''))
          ''mail'' []) \<noteq>
     [(MaildirUpstream \<lparr>Path = ''all'', written = 0\<rparr>, ''mail''),
      (ExecUpstream ''cat'', ''mail''),
      (LiveUpstream ''upstream'' ''localhost:25'' [] [], ''mail'')]"
  by (simp add: buildUpstream_example deliver_ok_def)

subsection \<open>Startup with unreadable TLS material\<close>

lemma buildTLSConfig_unreadable:
  "buildTLSConfig load_unreadable ''cert.pem'' ''key.pem'' =
     (None, Some ''open cert.pem: no such file or directory'')"
  by (simp add: buildTLSConfig_def load_unreadable_def)

lemma main_unreadable_pem:
  "main unreadable_pem
     ((default_flags ''failmail@localhost'')\<lparr>tlsCert := ''cert.pem'', tlsKey := ''key.pem''\<rparr>) =
     Serves
       \<lparr>srv_listener = \<lparr>Logger = ''listener'', Addr = ''localhost:2525'', Auth = None,
                         TLSConfig = None\<rparr>,
        srv_buffer = NewMessageBuffer 30000000000 300000000000 (Header ''X-Failmail-Split'' [])
                       SameSubject ''failmail@localhost'',
        srv_rateCounter = NewRateCounter 0 5,
        srv_upstream = LiveUpstream ''upstream'' ''localhost:25'' [] [],
        srv_failedMaildir = \<lparr>Path = ''failed'', written = 0\<rparr>,
        srv_script = None, srv_bindHTTP = ''localhost:8025'', srv_rateCheck = 60000000000,
        srv_relayAll = False\<rparr>"
  by (simp add: buildTLSConfig_def load_unreadable_def main_def main_script_def Let_def
        default_flags_def unreadable_pem_def create_ok_def script_ok_def buildAuth_def
        buildBatch_def buildGroup_def buildUpstream_def withRelayCommand_def)

lemma main_load_failure_as_no_tls:
  "main (sys\<lparr>LoadX509KeyPair := (\<lambda>certFile keyFile. Inl e)\<rparr>) f =
     main sys (f\<lparr>tlsCert := [], tlsKey := []\<rparr>)"
  by (simp add: main_def main_script_def buildTLSConfig_def Let_def
        split: prod.splits option.splits)

text \<open>
  C3 says that an error from building the TLS configuration is fatal at startup. In the
  code it is not: with a certificate and a key file that cannot be read,
  \<^verbatim>\<open>buildTLSConfig\<close> returns the error and \<^verbatim>\<open>main\<close> goes on to serve, its listener
  without a TLS configuration; and for every configuration, a key pair that fails to
  load starts exactly what starts with no TLS files configured.
\<close>

theorem main_drops_tls_error:
  "buildTLSConfig load_unreadable ''cert.pem'' ''key.pem'' =
     (None, Some ''open cert.pem: no such file or directory'') \<and>
   main unreadable_pem
     ((default_flags ''failmail@localhost'')\<lparr>tlsCert := ''cert.pem'', tlsKey := ''key.pem''\<rparr>) =
     Serves
       \<lparr>srv_listener = \<lparr>Logger = ''listener'', Addr = ''localhost:2525'', Auth = None,
                         TLSConfig = None\<rparr>,
        srv_buffer = NewMessageBuffer 30000000000 300000000000 (Header ''X-Failmail-Split'' [])
                       SameSubject ''failmail@localhost'',
        srv_rateCounter = NewRateCounter 0 5,
        srv_upstream = LiveUpstream ''upstream'' ''localhost:25'' [] [],
        srv_failedMaildir = \<lparr>Path = ''failed'', written = 0\<rparr>,
        srv_script = None, srv_bindHTTP = ''localhost:8025'', srv_rateCheck = 60000000000,
        srv_relayAll = False\<rparr> \<and>
   main (sys\<lparr>LoadX509KeyPair := (\<lambda>certFile keyFile. Inl e)\<rparr>) f =
     main sys (f\<lparr>tlsCert := [], tlsKey := []\<rparr>)"
proof (intro conjI)
  show "buildTLSConfig load_unreadable ''cert.pem'' ''key.pem'' =
     (None, Some ''open cert.pem: no such file or directory'')"
    by (rule buildTLSConfig_unreadable)
next
  show "main (sys\<lparr>LoadX509KeyPair := (\<lambda>certFile keyFile. Inl e)\<rparr>) f =
     main sys (f\<lparr>tlsCert := [], tlsKey := []\<rparr>)"
    by (rule main_load_failure_as_no_tls)
qed (rule main_unreadable_pem)

subsection \<open>Choice of the grouping functions\<close>

text \<open>C4: the grouping function is chosen by the precedence match, then replace, then the
  default: for batches \<open>MatchingSubject(batchMatch)\<close>, else
  \<open>ReplacedSubject(batchReplace, "*")\<close>, else \<open>Header(batchHeader, "")\<close>; for groups
  \<open>MatchingSubject(groupMatch)\<close>, else \<open>ReplacedSubject(groupReplace, "*")\<close>, else
  \<open>SameSubject()\<close>.\<close>

theorem buildBatch_buildGroup_precedence:
  "(bm \<noteq> [] \<longrightarrow> buildBatch bm br bh = MatchingSubject bm) \<and>
   (br' \<noteq> [] \<longrightarrow> buildBatch [] br' bh' = ReplacedSubject br' ''*'') \<and>
   buildBatch [] [] bh'' = Header bh'' [] \<and>
   (gm \<noteq> [] \<longrightarrow> buildGroup gm gr = MatchingSubject gm) \<and>
   (gr' \<noteq> [] \<longrightarrow> buildGroup [] gr' = ReplacedSubject gr' ''*'') \<and>
   buildGroup [] [] = SameSubject"
  by (simp add: buildBatch_def buildGroup_def)

theorem buildBatch_buildGroup_precedence_witness:
  "buildBatch ''[0-9]+'' ''x'' ''X-Failmail-Split'' = MatchingSubject ''[0-9]+'' \<and>
   buildBatch [] ''[0-9]+'' ''X-Failmail-Split'' = ReplacedSubject ''[0-9]+'' ''*'' \<and>
   buildBatch [] [] ''X-Failmail-Split'' = Header ''X-Failmail-Split'' [] \<and>
   buildGroup ''[a-z]+'' ''y'' = MatchingSubject ''[a-z]+'' \<and>
   buildGroup [] ''[a-z]+'' = ReplacedSubject ''[a-z]+'' ''*'' \<and>
   buildGroup [] [] = SameSubject"
  using buildBatch_buildGroup_precedence [of "''[0-9]+''" "''x''" "''X-Failmail-Split''"
          "''[0-9]+''" "''X-Failmail-Split''" "''X-Failmail-Split''"
          "''[a-z]+''" "''y''" "''[a-z]+''"]
  by simp

subsection \<open>The upstream pump\<close>

lemma sends_of_append: "sends_of (cs @ ds) = sends_of cs @ sends_of ds"
  by (induction cs rule: sends_of.induct) simp_all

lemma writes_of_append: "writes_of (cs @ ds) = writes_of cs @ writes_of ds"
  by (induction cs rule: writes_of.induct) simp_all

lemma logs_of_append: "logs_of (cs @ ds) = logs_of cs @ logs_of ds"
  by (induction cs rule: logs_of.induct) simp_all

lemma failed_sends_append: "failed_sends (xs @ ys) = failed_sends xs @ failed_sends ys"
  by (induction xs rule: failed_sends.induct) simp_all

lemma pump_message_delivered:
  "send msg w = (None, w1) \<Longrightarrow>
     pump_message bytes_of send write msg (w, calls) = (w1, calls @ [CallSend msg None])"
  by (simp add: pump_message_def)

lemma pump_message_spooled:
  "send msg w = (Some sendErr, w1) \<Longrightarrow> write (bytes_of msg) w1 = (None, w2) \<Longrightarrow>
     pump_message bytes_of send write msg (w, calls) =
       (w2, calls @ [CallSend msg (Some sendErr),
                     LogPrintf (''couldn't send message: '' @ sendErr),
                     CallWrite (bytes_of msg) None])"
  by (simp add: pump_message_def Let_def)

lemma pump_message_lost:
  "send msg w = (Some sendErr, w1) \<Longrightarrow> write (bytes_of msg) w1 = (Some saveErr, w2) \<Longrightarrow>
     pump_message bytes_of send write msg (w, calls) =
       (w2, calls @ [CallSend msg (Some sendErr),
                     LogPrintf (''couldn't send message: '' @ sendErr),
                     CallWrite (bytes_of msg) (Some saveErr),
                     LogPrintf (''couldn't save message: '' @ saveErr)])"
  by (simp add: pump_message_def Let_def)

lemma range_sending_foldl:
  "range_sending bytes_of send write msgs st =
     foldl (\<lambda>st msg. pump_message bytes_of send write msg st) st msgs"
  by (induction msgs arbitrary: st) simp_all

lemma pump_message_table:
  "pump_message bytes_of (table_Send sendErr) (table_Write saveErr) msg (w, calls) =
     (w\<lparr>delivered := delivered w @ filter (\<lambda>m. sendErr m = None) [msg],
        spooled := spooled w @
          filter (\<lambda>bs. saveErr bs = None)
            (map bytes_of (filter (\<lambda>m. sendErr m \<noteq> None) [msg]))\<rparr>,
      calls @
        (case sendErr msg of
           None \<Rightarrow> [CallSend msg None]
         | Some e \<Rightarrow>
             [CallSend msg (Some e), LogPrintf (''couldn't send message: '' @ e),
              CallWrite (bytes_of msg) (saveErr (bytes_of msg))] @
             (case saveErr (bytes_of msg) of
                None \<Rightarrow> []
              | Some e' \<Rightarrow> [LogPrintf (''couldn't save message: '' @ e')])))"
  by (simp add: pump_message_def table_Send_def table_Write_def Let_def
        split: option.splits)

lemma range_sending_table:
  "fst (range_sending bytes_of (table_Send sendErr) (table_Write saveErr) msgs (w, calls)) =
     w\<lparr>delivered := delivered w @ filter (\<lambda>m. sendErr m = None) msgs,
       spooled := spooled w @
         filter (\<lambda>bs. saveErr bs = None)
           (map bytes_of (filter (\<lambda>m. sendErr m \<noteq> None) msgs))\<rparr> \<and>
   sends_of (snd (range_sending bytes_of (table_Send sendErr) (table_Write saveErr) msgs
                    (w, calls))) =
     sends_of calls @ map (\<lambda>m. (m, sendErr m)) msgs \<and>
   writes_of (snd (range_sending bytes_of (table_Send sendErr) (table_Write saveErr) msgs
                     (w, calls))) =
     writes_of calls @ map bytes_of (filter (\<lambda>m. sendErr m \<noteq> None) msgs) \<and>
   logs_of (snd (range_sending bytes_of (table_Send sendErr) (table_Write saveErr) msgs
                   (w, calls))) =
     logs_of calls @ concat (map (failure_log bytes_of sendErr saveErr) msgs)"
proof (induction msgs arbitrary: w calls)
  case Nil
  show ?case by simp
next
  case (Cons msg rest)
  show ?case
    by (simp add: pump_message_table Cons.IH sends_of_append writes_of_append logs_of_append
          failure_log_def split: option.splits)
qed


lemma sendUpstream_foldl:
  "sendUpstream bytes_of send write ch st =
     (if closed ch then
        Exited (fst (foldl (\<lambda>st msg. pump_message bytes_of send write msg st) st (queue ch)),
                snd (foldl (\<lambda>st msg. pump_message bytes_of send write msg st) st (queue ch)) @
                  [LogPrintf ''done sending''])
      else Blocked (foldl (\<lambda>st msg. pump_message bytes_of send write msg st) st (queue ch)))"
  by (simp add: sendUpstream_def range_sending_foldl split: prod.splits)

lemma pump_message_sends:
  "map fst (sends_of (snd (pump_message bytes_of send write msg (w, calls)))) =
     map fst (sends_of calls) @ [msg]"
  by (simp add: pump_message_def Let_def sends_of_append split: prod.splits option.splits)

lemma pump_message_writes:
  "writes_of calls = map bytes_of (failed_sends (sends_of calls)) \<Longrightarrow>
   writes_of (snd (pump_message bytes_of send write msg (w, calls))) =
     map bytes_of (failed_sends (sends_of (snd (pump_message bytes_of send write msg (w, calls)))))"
  by (simp add: pump_message_def Let_def sends_of_append writes_of_append failed_sends_append
        split: prod.splits option.splits)

lemma range_sending_sends:
  "map fst (sends_of (snd (range_sending bytes_of send write msgs st))) =
     map fst (sends_of (snd st)) @ msgs"
proof (induction msgs arbitrary: st)
  case Nil
  show ?case by simp
next
  case (Cons msg rest)
  obtain w calls where st: "st = (w, calls)" by (cases st)
  show ?case
    using Cons.IH [of "pump_message bytes_of send write msg st"]
    by (simp add: st pump_message_sends)
qed

lemma range_sending_writes:
  "writes_of (snd st) = map bytes_of (failed_sends (sends_of (snd st))) \<Longrightarrow>
   writes_of (snd (range_sending bytes_of send write msgs st)) =
     map bytes_of (failed_sends (sends_of (snd (range_sending bytes_of send write msgs st))))"
proof (induction msgs arbitrary: st)
  case Nil
  then show ?case by simp
next
  case (Cons msg rest)
  obtain w calls where st: "st = (w, calls)" by (cases st)
  have "writes_of (snd (pump_message bytes_of send write msg st)) =
          map bytes_of (failed_sends (sends_of (snd (pump_message bytes_of send write msg st))))"
    using Cons.prems pump_message_writes [of calls bytes_of "send" "write" msg w]
    by (simp add: st)
  then show ?case
    using Cons.IH [of "pump_message bytes_of send write msg st"] by simp
qed

lemma sendUpstream_calls:
  "snd (pump_state (sendUpstream bytes_of send write ch st)) =
     snd (range_sending bytes_of send write (queue ch) st) @
       (if closed ch then [LogPrintf ''done sending''] else [])"
  by (simp add: sendUpstream_def split: prod.splits)

lemma sendUpstream_world:
  "fst (pump_state (sendUpstream bytes_of send write ch st)) =
     fst (range_sending bytes_of send write (queue ch) st)"
  by (simp add: sendUpstream_def split: prod.splits)

lemma sendUpstream_record:
  "map fst (sends_of (snd (pump_state (sendUpstream bytes_of send write ch (w, []))))) = queue ch \<and>
   writes_of (snd (pump_state (sendUpstream bytes_of send write ch (w, [])))) =
     map bytes_of
       (failed_sends (sends_of (snd (pump_state (sendUpstream bytes_of send write ch (w, [])))))) \<and>
   pump_exited (sendUpstream bytes_of send write ch (w, [])) = closed ch"
proof -
  have sends:
    "map fst (sends_of (snd (range_sending bytes_of send write (queue ch) (w, [])))) = queue ch"
    using range_sending_sends [of bytes_of "send" "write" "queue ch" "(w, [])"] by simp
  have writes:
    "writes_of (snd (range_sending bytes_of send write (queue ch) (w, []))) =
       map bytes_of
         (failed_sends (sends_of (snd (range_sending bytes_of send write (queue ch) (w, [])))))"
    using range_sending_writes [of "(w, [])" bytes_of "send" "write" "queue ch"] by simp
  have exited: "pump_exited (sendUpstream bytes_of send write ch (w, [])) = closed ch"
    by (simp add: sendUpstream_def split: prod.splits)
  show ?thesis
    using sends writes exited
    by (simp add: sendUpstream_calls sends_of_append writes_of_append)
qed

lemma sendUpstream_table:
  "fst (pump_state (sendUpstream bytes_of (table_Send sendErr) (table_Write saveErr) ch
          (\<lparr>delivered = [], spooled = []\<rparr>, []))) =
     \<lparr>delivered = filter (\<lambda>m. sendErr m = None) (queue ch),
      spooled = filter (\<lambda>bs. saveErr bs = None)
                  (map bytes_of (filter (\<lambda>m. sendErr m \<noteq> None) (queue ch)))\<rparr> \<and>
   sends_of (snd (pump_state (sendUpstream bytes_of (table_Send sendErr) (table_Write saveErr) ch
          (\<lparr>delivered = [], spooled = []\<rparr>, [])))) =
     map (\<lambda>m. (m, sendErr m)) (queue ch) \<and>
   writes_of (snd (pump_state (sendUpstream bytes_of (table_Send sendErr) (table_Write saveErr) ch
          (\<lparr>delivered = [], spooled = []\<rparr>, [])))) =
     map bytes_of (filter (\<lambda>m. sendErr m \<noteq> None) (queue ch)) \<and>
   logs_of (snd (pump_state (sendUpstream bytes_of (table_Send sendErr) (table_Write saveErr) ch
          (\<lparr>delivered = [], spooled = []\<rparr>, [])))) =
     concat (map (failure_log bytes_of sendErr saveErr) (queue ch)) @
       (if closed ch then [''done sending''] else [])"
  using range_sending_table [of bytes_of sendErr saveErr "queue ch"
          "\<lparr>delivered = [], spooled = []\<rparr>" "[]"]
  by (simp add: sendUpstream_calls sendUpstream_world sends_of_append writes_of_append
        logs_of_append)

text \<open>
  C5: for every message taken from \<open>sending\<close>, whatever \<open>Send\<close> and the failure
  maildir do to the world: if \<open>Send\<close> returns no error the pump does nothing more; if
  it returns an error the pump logs it and calls the failure maildir's \<open>Write\<close> with the
  message's bytes, in the world \<open>Send\<close> left; if that write fails too, the pump only logs
  the second error. In every case it goes on to the next message, so that the pump is
  the fold of this step over what \<open>sending\<close> holds, every message is sent in order, and
  the pump has left its loop (logging that it is done) exactly when \<open>sending\<close> is closed.
  With sinks that answer by tables, the upstream ends with the messages it accepted,
  the failure maildir with the bytes of the refused messages it could save, and the log
  with one line per refusal and one per failed save.
\<close>

theorem sendUpstream_spools_failures_and_goes_on:
  "(send msg w = (None, w1) \<longrightarrow>
      pump_message bytes_of send save msg (w, calls) = (w1, calls @ [CallSend msg None])) \<and>
   (send msg' w = (Some e, w1') \<and> save (bytes_of msg') w1' = (None, w2') \<longrightarrow>
      pump_message bytes_of send save msg' (w, calls) =
        (w2', calls @ [CallSend msg' (Some e), LogPrintf (''couldn't send message: '' @ e),
                       CallWrite (bytes_of msg') None])) \<and>
   (send msg'' w = (Some e, w1'') \<and> save (bytes_of msg'') w1'' = (Some e', w2'') \<longrightarrow>
      pump_message bytes_of send save msg'' (w, calls) =
        (w2'', calls @ [CallSend msg'' (Some e), LogPrintf (''couldn't send message: '' @ e),
                        CallWrite (bytes_of msg'') (Some e'),
                        LogPrintf (''couldn't save message: '' @ e')])) \<and>
   sendUpstream bytes_of send save ch st =
     (if closed ch then
        Exited (fst (foldl (\<lambda>st msg. pump_message bytes_of send save msg st) st (queue ch)),
                snd (foldl (\<lambda>st msg. pump_message bytes_of send save msg st) st (queue ch)) @
                  [LogPrintf ''done sending''])
      else Blocked (foldl (\<lambda>st msg. pump_message bytes_of send save msg st) st (queue ch))) \<and>
   map fst (sends_of (snd (pump_state (sendUpstream bytes_of send save ch (w, []))))) = queue ch \<and>
   writes_of (snd (pump_state (sendUpstream bytes_of send save ch (w, [])))) =
     map bytes_of
       (failed_sends (sends_of (snd (pump_state (sendUpstream bytes_of send save ch (w, [])))))) \<and>
   pump_exited (sendUpstream bytes_of send save ch (w, [])) = closed ch \<and>
   fst (pump_state (sendUpstream bytes_of (table_Send sendErr) (table_Write saveErr) ch
          (\<lparr>delivered = [], spooled = []\<rparr>, []))) =
     \<lparr>delivered = filter (\<lambda>m. sendErr m = None) (queue ch),
      spooled = filter (\<lambda>bs. saveErr bs = None)
                  (map bytes_of (filter (\<lambda>m. sendErr m \<noteq> None) (queue ch)))\<rparr> \<and>
   sends_of (snd (pump_state (sendUpstream bytes_of (table_Send sendErr) (table_Write saveErr) ch
          (\<lparr>delivered = [], spooled = []\<rparr>, [])))) =
     map (\<lambda>m. (m, sendErr m)) (queue ch) \<and>
   writes_of (snd (pump_state (sendUpstream bytes_of (table_Send sendErr) (table_Write saveErr) ch
          (\<lparr>delivered = [], spooled = []\<rparr>, [])))) =
     map bytes_of (filter (\<lambda>m. sendErr m \<noteq> None) (queue ch)) \<and>
   logs_of (snd (pump_state (sendUpstream bytes_of (table_Send sendErr) (table_Write saveErr) ch
          (\<lparr>delivered = [], spooled = []\<rparr>, [])))) =
     concat (map (failure_log bytes_of sendErr saveErr) (queue ch)) @
       (if closed ch then [''done sending''] else [])"
proof -
  have one:
    "send msg w = (None, w1) \<longrightarrow>
       pump_message bytes_of send save msg (w, calls) = (w1, calls @ [CallSend msg None])"
    "send msg' w = (Some e, w1') \<and> save (bytes_of msg') w1' = (None, w2') \<longrightarrow>
      pump_message bytes_of send save msg' (w, calls) =
        (w2', calls @ [CallSend msg' (Some e), LogPrintf (''couldn't send message: '' @ e),
                       CallWrite (bytes_of msg') None])"
    "send msg'' w = (Some e, w1'') \<and> save (bytes_of msg'') w1'' = (Some e', w2'') \<longrightarrow>
      pump_message bytes_of send save msg'' (w, calls) =
        (w2'', calls @ [CallSend msg'' (Some e), LogPrintf (''couldn't send message: '' @ e),
                        CallWrite (bytes_of msg'') (Some e'),
                        LogPrintf (''couldn't save message: '' @ e')])"
    by (simp_all add: pump_message_delivered pump_message_spooled pump_message_lost)
  show ?thesis
    by (intro conjI one sendUpstream_foldl
          conjunct1 [OF sendUpstream_record]
          conjunct1 [OF conjunct2 [OF sendUpstream_record]]
          conjunct2 [OF conjunct2 [OF sendUpstream_record]]
          conjunct1 [OF sendUpstream_table]
          conjunct1 [OF conjunct2 [OF sendUpstream_table]]
          conjunct1 [OF conjunct2 [OF conjunct2 [OF sendUpstream_table]]]
          conjunct2 [OF conjunct2 [OF conjunct2 [OF sendUpstream_table]]])
qed

theorem sendUpstream_spools_failures_and_goes_on_witness:
  "table_Send relay_down ''good'' \<lparr>delivered = [], spooled = []\<rparr> =
     (None, \<lparr>delivered = [''good''], spooled = []\<rparr>) \<and>
   table_Send relay_down ''bad'' \<lparr>delivered = [], spooled = []\<rparr> =
     (Some ''relay down'', \<lparr>delivered = [], spooled = []\<rparr>) \<and>
   table_Write disk_full (contents ''bad'') \<lparr>delivered = [], spooled = []\<rparr> =
     (None, \<lparr>delivered = [], spooled = [''bad'']\<rparr>) \<and>
   table_Send relay_down ''worse'' \<lparr>delivered = [], spooled = []\<rparr> =
     (Some ''relay down'', \<lparr>delivered = [], spooled = []\<rparr>) \<and>
   table_Write disk_full (contents ''worse'') \<lparr>delivered = [], spooled = []\<rparr> =
     (Some ''disk full'', \<lparr>delivered = [], spooled = []\<rparr>) \<and>
   pump_message contents (table_Send relay_down) (table_Write disk_full) ''good''
       (\<lparr>delivered = [], spooled = []\<rparr>, []) =
     (\<lparr>delivered = [''good''], spooled = []\<rparr>, [CallSend ''good'' None]) \<and>
   pump_message contents (table_Send relay_down) (table_Write disk_full) ''bad''
       (\<lparr>delivered = [], spooled = []\<rparr>, []) =
     (\<lparr>delivered = [], spooled = [''bad'']\<rparr>,
      [CallSend ''bad'' (Some ''relay down''), LogPrintf ''couldn't send message: relay down'',
       CallWrite ''bad'' None]) \<and>
   pump_message contents (table_Send relay_down) (table_Write disk_full) ''worse''
       (\<lparr>delivered = [], spooled = []\<rparr>, []) =
     (\<lparr>delivered = [], spooled = []\<rparr>,
      [CallSend ''worse'' (Some ''relay down''), LogPrintf ''couldn't send message: relay down'',
       CallWrite ''worse'' (Some ''disk full''),
       LogPrintf ''couldn't save message: disk full'']) \<and>
   sendUpstream contents (table_Send relay_down) (table_Write disk_full)
       \<lparr>queue = [''good'', ''bad'', ''worse'', ''good''], closed = True, capacity = 64\<rparr>
       (\<lparr>delivered = [], spooled = []\<rparr>, []) =
     Exited
       (\<lparr>delivered = [''good'', ''good''], spooled = [''bad'']\<rparr>,
        [CallSend ''good'' None,
         CallSend ''bad'' (Some ''relay down''), LogPrintf ''couldn't send message: relay down'',
         CallWrite ''bad'' None,
         CallSend ''worse'' (Some ''relay down''), LogPrintf ''couldn't send message: relay down'',
         CallWrite ''worse'' (Some ''disk full''), LogPrintf ''couldn't save message: disk full'',
         CallSend ''good'' None,
         LogPrintf ''done sending''])"
  using sendUpstream_spools_failures_and_goes_on
    [where ?send = "table_Send relay_down" and ?save = "table_Write disk_full"
       and bytes_of = contents and w = "\<lparr>delivered = [], spooled = []\<rparr>" and calls = "[]"
       and msg = "''good''" and ?w1.0 = "\<lparr>delivered = [''good''], spooled = []\<rparr>"
       and msg' = "''bad''" and w1' = "\<lparr>delivered = [], spooled = []\<rparr>"
       and w2' = "\<lparr>delivered = [], spooled = [''bad'']\<rparr>" and e = "''relay down''"
       and msg'' = "''worse''" and w1'' = "\<lparr>delivered = [], spooled = []\<rparr>"
       and w2'' = "\<lparr>delivered = [], spooled = []\<rparr>" and e' = "''disk full''"
       and ch = "\<lparr>queue = [''good'', ''bad'', ''worse'', ''good''], closed = True, capacity = 64\<rparr>"
       and st = "(\<lparr>delivered = [], spooled = []\<rparr>, [])"
       and sendErr = relay_down and saveErr = disk_full]
  by (simp add: table_Send_def table_Write_def relay_down_def disk_full_def contents_def
        pump_message_def sendUpstream_def Let_def)

subsection \<open>A message received by the coordinator\<close>

text \<open>
  C6 says that every message taken from \<open>received\<close> is added to the buffer, counted,
  and with \<open>relayAll\<close> enqueued on \<open>sending\<close>. In the code the first two hold in every
  state, and the third while \<open>sending\<close> is open (the send waiting for the pump when
  \<open>sending\<close> is full). But the loop goes on after it has served a request on \<open>done\<close>:
  then \<open>sending\<close> is closed, and a message received with \<open>relayAll\<close> is added,
  counted and never enqueued, the send panicking; so it is in the run started by
  \<^verbatim>\<open>main\<close> that receives a request on \<open>done\<close> and then a message.
\<close>

theorem run_received_after_done_not_relayed:
  "run_select bufAdd bufFlush rcAdd rcCheckAndAdvance ra (Received m) st =
     (if ra then
        (if closed (sending st) then
           Panicked ''send on closed channel''
             (st\<lparr>buffer := bufAdd m (buffer st), rateCounter := rcAdd 1 (rateCounter st)\<rparr>)
         else if length (queue (sending st)) < capacity (sending st) then
           Continue
             (st\<lparr>buffer := bufAdd m (buffer st), rateCounter := rcAdd 1 (rateCounter st),
                 sending := (sending st)\<lparr>queue := queue (sending st) @ [RawMessage m]\<rparr>\<rparr>)
         else
           SendWaits
             (st\<lparr>buffer := bufAdd m (buffer st), rateCounter := rcAdd 1 (rateCounter st)\<rparr>)
             [RawMessage m] False)
      else
        Continue (st\<lparr>buffer := bufAdd m (buffer st), rateCounter := rcAdd 1 (rateCounter st)\<rparr>)) \<and>
   run_select2 render bufAdd bufFlush rcAdd rcCheckAndAdvance ra (Received m) st2 =
     (if ra then
        (if closed (sending st2) then
           Panicked ''send on closed channel''
             (st2\<lparr>buffer := bufAdd m (buffer st2), rateCounter := rcAdd 1 (rateCounter st2)\<rparr>)
         else if length (queue (sending st2)) < capacity (sending st2) then
           Continue
             (st2\<lparr>buffer := bufAdd m (buffer st2), rateCounter := rcAdd 1 (rateCounter st2),
                  sending := (sending st2)\<lparr>queue := queue (sending st2) @ [RawMessage m]\<rparr>\<rparr>)
         else
           SendWaits
             (st2\<lparr>buffer := bufAdd m (buffer st2), rateCounter := rcAdd 1 (rateCounter st2)\<rparr>)
             [RawMessage m] False)
      else
        Continue (st2\<lparr>buffer := bufAdd m (buffer st2),
                      rateCounter := rcAdd 1 (rateCounter st2)\<rparr>)) \<and>
   run keep_all flush_all count_up check_none True [Done True, Received ''mail''] (start [] 0) =
     Crashed ''send on closed channel''
       \<lparr>buffer = [''mail''], rateCounter = 1,
        sending = \<lparr>queue = [], closed = True, capacity = 64\<rparr>,
        logged = [''cleaning up''], reloadRequested = False\<rparr> \<and>
   run2 id keep_all flush_all count_up check_none True [Done Shutdown, Received ''mail'']
       (start [] 0) =
     Crashed ''send on closed channel''
       \<lparr>buffer = [''mail''], rateCounter = 1,
        sending = \<lparr>queue = [], closed = True, capacity = 64\<rparr>,
        logged = [''cleaning up''], reloadRequested = False\<rparr>"
proof -
  have cleanup: "run_cleanup flush_all render (start [] 0) =
     Continue
       \<lparr>buffer = [], rateCounter = 0,
        sending = \<lparr>queue = [], closed = True, capacity = 64\<rparr>,
        logged = [''cleaning up''], reloadRequested = False\<rparr>"
    for render :: "string \<Rightarrow> string"
    using run_cleanup_start [where bufFlush = flush_all and render = render and b = "[]"
            and r = 0 and q = False]
    by (simp add: start_reloadRequested flush_all_def)
  have v1: "run keep_all flush_all count_up check_none True [Done True, Received ''mail'']
          (start [] 0) =
     Crashed ''send on closed channel''
       \<lparr>buffer = [''mail''], rateCounter = 1,
        sending = \<lparr>queue = [], closed = True, capacity = 64\<rparr>,
        logged = [''cleaning up''], reloadRequested = False\<rparr>"
    by (simp add: cleanup run_received_cases keep_all_def count_up_def)
  have v2: "run2 id keep_all flush_all count_up check_none True [Done Shutdown, Received ''mail'']
          (start [] 0) =
     Crashed ''send on closed channel''
       \<lparr>buffer = [''mail''], rateCounter = 1,
        sending = \<lparr>queue = [], closed = True, capacity = 64\<rparr>,
        logged = [''cleaning up''], reloadRequested = False\<rparr>"
    by (simp add: cleanup run_received_cases keep_all_def count_up_def)
  show ?thesis
    using v1 v2 by (simp add: run_received_cases)
qed

subsection \<open>Listener credentials\<close>

lemma SplitN_colon:
  "sep \<notin> set u \<Longrightarrow> SplitN (u @ sep # p) sep 2 = [u, p]"
proof -
  assume u: "sep \<notin> set u"
  have "takeWhile (\<lambda>c. c \<noteq> sep) (u @ sep # p) = u"
    using u by (induction u) auto
  moreover have "dropWhile (\<lambda>c. c \<noteq> sep) (u @ sep # p) = sep # p"
    using u by (induction u) auto
  ultimately show ?thesis
    by (simp add: numeral_2_eq_2)
qed

lemma SplitN_no_sep:
  "sep \<notin> set s \<Longrightarrow> SplitN s sep 2 = [s]"
  by (simp add: numeral_2_eq_2)

lemma buildAuth_split:
  "CHR '':'' \<notin> set u \<Longrightarrow>
     buildAuth (u @ CHR '':'' # p) = (Some (SingleUserPlainAuth u p), None)"
  by (simp add: buildAuth_def SplitN_colon)

lemma buildAuth_no_colon:
  "c \<noteq> [] \<Longrightarrow> CHR '':'' \<notin> set c \<Longrightarrow>
     buildAuth c = (None, Some ''credentials must be in username:password format'')"
  by (simp add: buildAuth_def SplitN_no_sep)

text \<open>
  C7: \<^verbatim>\<open>buildAuth\<close> returns no authenticator and no error for the empty string; for a
  string with a colon, the single-user authenticator whose username is the text before
  the first colon and whose password is everything after it; for a non-empty string
  without a colon, an error, with which \<^verbatim>\<open>main\<close> (past the version flag) ends fatally.
\<close>

theorem buildAuth_credentials:
  "buildAuth [] = (None, None) \<and>
   (CHR '':'' \<notin> set u \<longrightarrow>
      buildAuth (u @ '':'' @ p) = (Some (SingleUserPlainAuth u p), None)) \<and>
   (c \<noteq> [] \<and> CHR '':'' \<notin> set c \<longrightarrow>
      buildAuth c = (None, Some ''credentials must be in username:password format'')) \<and>
   (\<not> version f \<and> credentials f \<noteq> [] \<and> CHR '':'' \<notin> set (credentials f) \<longrightarrow>
      main sys f =
        Fatal ''failed to parse auth credentials: credentials must be in username:password format'')"
proof -
  have empty: "buildAuth [] = (None, None)"
    by (simp add: buildAuth_def)
  have fatal: "main sys f =
        Fatal ''failed to parse auth credentials: credentials must be in username:password format''"
    if "\<not> version f" "credentials f \<noteq> []" "CHR '':'' \<notin> set (credentials f)"
    using that buildAuth_no_colon [of "credentials f"] by (simp add: main_def)
  show ?thesis
    using empty fatal buildAuth_split [of u p] buildAuth_no_colon [of c] by simp
qed

theorem buildAuth_credentials_witness:
  "buildAuth ''user:pa:ss'' = (Some (SingleUserPlainAuth ''user'' ''pa:ss''), None) \<and>
   buildAuth ''nobody'' = (None, Some ''credentials must be in username:password format'') \<and>
   main unreadable_pem ((default_flags ''failmail@localhost'')\<lparr>credentials := ''nobody''\<rparr>) =
     Fatal ''failed to parse auth credentials: credentials must be in username:password format''"
  using buildAuth_credentials [of "''user''" "''pa:ss''" "''nobody''"
          "(default_flags ''failmail@localhost'')\<lparr>credentials := ''nobody''\<rparr>" unreadable_pem]
  by (simp add: default_flags_def)

subsection \<open>Maildir entry names\<close>

lemma NextUniqueName_test_env:
  "NextUniqueName test_env m =
     ((''1393650000.1000_'' @ digits (written m + 1) @ ''.test'', None),
      m\<lparr>written := written m + 1\<rparr>)"
  by (simp add: NextUniqueName_def test_env_def Let_def formatInt_def digits.simps)

text \<open>
  C8: with hostname \<open>test\<close>, pid 1000 and time 1393650000, two successive calls of
  \<open>NextUniqueName\<close> on a fresh maildir return \<open>1393650000.1000_1.test\<close> and then
  \<open>1393650000.1000_2.test\<close>, every call adding one to the sequence counter, and
  \<open>Write\<close> stores the bytes in \<open>cur/\<close> under the next name with \<open>:2,S\<close> appended.
\<close>

theorem maildir_names_in_test_env:
  "NextUniqueName test_env \<lparr>Path = p, written = 0\<rparr> =
     ((''1393650000.1000_1.test'', None), \<lparr>Path = p, written = 1\<rparr>) \<and>
   NextUniqueName test_env \<lparr>Path = p, written = 1\<rparr> =
     ((''1393650000.1000_2.test'', None), \<lparr>Path = p, written = 2\<rparr>) \<and>
   written (snd (NextUniqueName test_env m)) = written m + 1 \<and>
   Write test_env \<lparr>Path = p, written = 0\<rparr> bs fs =
     ((''1393650000.1000_1.test:2,S'', None), \<lparr>Path = p, written = 1\<rparr>,
      fs(p @ ''/cur/1393650000.1000_1.test:2,S'' \<mapsto> bs)) \<and>
   fst (fst (Write test_env m bs fs)) = fst (fst (NextUniqueName test_env m)) @ '':2,S'' \<and>
   snd (snd (Write test_env m bs fs)) =
     fs(Path m @ ''/cur/'' @ fst (fst (NextUniqueName test_env m)) @ '':2,S'' \<mapsto> bs)"
  by (simp add: NextUniqueName_test_env Write_def Let_def digits.simps)

subsection \<open>TLS configuration with a file missing\<close>

lemma buildTLSConfig_empty:
  "certFile = [] \<or> keyFile = [] \<Longrightarrow> buildTLSConfig load certFile keyFile = (None, None)"
  by (simp add: buildTLSConfig_def)

lemma main_Serves_listener:
  "main sys f = Serves srv \<Longrightarrow>
     TLSConfig (srv_listener srv) =
       fst (buildTLSConfig (LoadX509KeyPair sys) (tlsCert f) (tlsKey f))"
  by (auto simp: main_def main_script_def Let_def split: if_splits prod.splits option.splits)

lemma main_cert_only:
  "main unreadable_pem ((default_flags ''failmail@localhost'')\<lparr>tlsCert := ''cert.pem''\<rparr>) =
     Serves
       \<lparr>srv_listener = \<lparr>Logger = ''listener'', Addr = ''localhost:2525'', Auth = None,
                         TLSConfig = None\<rparr>,
        srv_buffer = NewMessageBuffer 30000000000 300000000000 (Header ''X-Failmail-Split'' [])
                       SameSubject ''failmail@localhost'',
        srv_rateCounter = NewRateCounter 0 5,
        srv_upstream = LiveUpstream ''upstream'' ''localhost:25'' [] [],
        srv_failedMaildir = \<lparr>Path = ''failed'', written = 0\<rparr>,
        srv_script = None, srv_bindHTTP = ''localhost:8025'', srv_rateCheck = 60000000000,
        srv_relayAll = False\<rparr>"
  by (simp add: buildTLSConfig_def load_unreadable_def main_def main_script_def Let_def
        default_flags_def unreadable_pem_def create_ok_def script_ok_def buildAuth_def
        buildBatch_def buildGroup_def buildUpstream_def withRelayCommand_def)

text \<open>
  C9: if the certificate file or the key file is the empty string, \<^verbatim>\<open>buildTLSConfig\<close>
  returns no TLS configuration and no error, without trying to load anything; a
  \<^verbatim>\<open>main\<close> that then gets to serve has a listener without a TLS configuration.
\<close>

theorem buildTLSConfig_needs_both_files:
  "(certFile = [] \<or> keyFile = [] \<longrightarrow> buildTLSConfig load certFile keyFile = (None, None)) \<and>
   ((tlsCert f = [] \<or> tlsKey f = []) \<and> main sys f = Serves srv \<longrightarrow>
      TLSConfig (srv_listener srv) = None)"
  using buildTLSConfig_empty [of certFile keyFile load]
    buildTLSConfig_empty [of "tlsCert f" "tlsKey f" "LoadX509KeyPair sys"]
    main_Serves_listener [of sys f srv]
  by auto

theorem buildTLSConfig_needs_both_files_witness:
  "buildTLSConfig load_unreadable ''cert.pem'' [] = (None, None) \<and>
   tlsKey ((default_flags ''failmail@localhost'')\<lparr>tlsCert := ''cert.pem''\<rparr>) = [] \<and>
   (case main unreadable_pem ((default_flags ''failmail@localhost'')\<lparr>tlsCert := ''cert.pem''\<rparr>) of
      Serves srv \<Rightarrow> TLSConfig (srv_listener srv) = None
    | Fatal msg \<Rightarrow> False
    | VersionShown \<Rightarrow> False)"
  using buildTLSConfig_needs_both_files [of "''cert.pem''" "[]" load_unreadable
      "(default_flags ''failmail@localhost'')\<lparr>tlsCert := ''cert.pem''\<rparr>" unreadable_pem]
    main_cert_only
  by (simp add: default_flags_def)

subsection \<open>A maildir write without a hostname\<close>

text \<open>
  C10: if the hostname lookup of the naming environment fails, \<open>Write\<close> returns that
  same error and the file system is left as it was: no entry is created.
\<close>

theorem Write_hostname_error:
  "Hostname env = (host, Some err) \<Longrightarrow>
     snd (fst (Write env m bs fs)) = Some err \<and> snd (snd (Write env m bs fs)) = fs"
  by (simp add: Write_def NextUniqueName_def)

theorem Write_hostname_error_witness:
  "Hostname no_hostname = ([], Some ''couldn't get hostname'') \<and>
   snd (fst (Write no_hostname \<lparr>Path = ''maildir/test'', written = 0\<rparr> ''test mail'' Map.empty)) =
     Some ''couldn't get hostname'' \<and>
   snd (snd (Write no_hostname \<lparr>Path = ''maildir/test'', written = 0\<rparr> ''test mail'' Map.empty)) =
     Map.empty"
  using Write_hostname_error [of no_hostname "[]" "''couldn't get hostname''"
          "\<lparr>Path = ''maildir/test'', written = 0\<rparr>" "''test mail''" Map.empty]
  by (simp add: no_hostname_def)

end
